theory Spec2Isabelle
  imports Complex_Main
begin

section \<open>Python values and exceptions\<close>

text \<open>
  The agent of \<^verbatim>\<open>src/agent.py\<close> works on JSON-shaped data: dictionaries with string
  keys, lists, strings, numbers, booleans and \<^verbatim>\<open>None\<close>. A dictionary is an association
  list (insertion order kept, the first entry of a key is the one looked up). A float is
  taken as the real number it denotes: rounding, infinities and NaN are outside the model.
\<close>

datatype pyval =
    VNone
  | VBool bool
  | VInt int
  | VFloat real
  | VStr string
  | VList "pyval list"
  | VDict "(string \<times> pyval) list"

type_synonym pydict = "(string \<times> pyval) list"

text \<open>
  Every exception the program can meet is an instance of Python's \<^verbatim>\<open>Exception\<close>; it is
  a value with its class and the text \<^verbatim>\<open>str(e)\<close>. Interrupts of the interpreter
  (\<^verbatim>\<open>KeyboardInterrupt\<close>, \<^verbatim>\<open>SystemExit\<close>) are outside the model.
\<close>

datatype exn_class =
    KeyError
  | TypeError
  | AttributeError
  | ValueError
  | ZeroDivisionError
  | JSONDecodeError
  | TimeoutExpired
  | OSError

datatype pyexn = PyExn (exn_class: exn_class) (exn_msg: string)

fun type_name :: "pyval \<Rightarrow> string" where
  "type_name VNone = ''NoneType''"
| "type_name (VBool _) = ''bool''"
| "type_name (VInt _) = ''int''"
| "type_name (VFloat _) = ''float''"
| "type_name (VStr _) = ''str''"
| "type_name (VList _) = ''list''"
| "type_name (VDict _) = ''dict''"

definition quoted :: "string \<Rightarrow> string" where
  "quoted s = [CHR 0x27] @ s @ [CHR 0x27]"

definition no_attribute :: "pyval \<Rightarrow> string \<Rightarrow> pyexn" where
  "no_attribute obj attr =
     PyExn AttributeError (quoted (type_name obj) @ '' object has no attribute '' @ quoted attr)"

subsection \<open>Dictionaries\<close>

definition getitem :: "pydict \<Rightarrow> string \<Rightarrow> pyexn + pyval" where
  \<comment> \<open>\<^verbatim>\<open>d[k]\<close>: a missing key raises KeyError, whose text is the quoted key.\<close>
  "getitem d k = (case map_of d k of None \<Rightarrow> Inl (PyExn KeyError (quoted k)) | Some v \<Rightarrow> Inr v)"

definition dict_get :: "pydict \<Rightarrow> string \<Rightarrow> pyval \<Rightarrow> pyval" where
  \<comment> \<open>\<^verbatim>\<open>d.get(k, default)\<close> on a dictionary.\<close>
  "dict_get d k dflt = (case map_of d k of None \<Rightarrow> dflt | Some v \<Rightarrow> v)"

fun setitem :: "pydict \<Rightarrow> string \<Rightarrow> pyval \<Rightarrow> pydict" where
  \<comment> \<open>\<^verbatim>\<open>d[k] = v\<close>: an existing key keeps its place, a new one goes last.\<close>
  "setitem [] k v = [(k, v)]"
| "setitem ((k', v') # d) k v = (if k' = k then (k, v) # d else (k', v') # setitem d k v)"

definition py_get :: "pyval \<Rightarrow> string \<Rightarrow> pyval \<Rightarrow> pyexn + pyval" where
  \<comment> \<open>\<^verbatim>\<open>obj.get(k, default)\<close> on any value: only a dictionary has the method.\<close>
  "py_get obj k dflt =
     (case obj of VDict d \<Rightarrow> Inr (dict_get d k dflt) | _ \<Rightarrow> Inl (no_attribute obj ''get''))"

subsection \<open>Numbers\<close>

fun num_of :: "pyval \<Rightarrow> real option" where
  \<comment> \<open>The number a value stands for in arithmetic and comparisons; \<^verbatim>\<open>bool\<close> is a
      subclass of \<^verbatim>\<open>int\<close>.\<close>
  "num_of (VInt i) = Some (of_int i)"
| "num_of (VFloat x) = Some x"
| "num_of (VBool b) = Some (if b then 1 else 0)"
| "num_of _ = None"

fun int_of :: "pyval \<Rightarrow> int option" where
  \<comment> \<open>The integer of an \<^verbatim>\<open>int\<close> or \<^verbatim>\<open>bool\<close>.\<close>
  "int_of (VInt i) = Some i"
| "int_of (VBool b) = Some (if b then 1 else 0)"
| "int_of _ = None"

definition py_add :: "pyval \<Rightarrow> pyval \<Rightarrow> pyexn + pyval" where
  \<comment> \<open>\<^verbatim>\<open>a + b\<close>: integers stay integers, a float operand makes a float; strings and
      lists concatenate with their own kind; anything else is a TypeError.\<close>
  "py_add a b =
     (case (int_of a, int_of b) of
        (Some i, Some j) \<Rightarrow> Inr (VInt (i + j))
      | _ \<Rightarrow>
        (case (num_of a, num_of b) of
           (Some x, Some y) \<Rightarrow> Inr (VFloat (x + y))
         | _ \<Rightarrow>
           (case (a, b) of
              (VStr s, VStr t) \<Rightarrow> Inr (VStr (s @ t))
            | (VList xs, VList ys) \<Rightarrow> Inr (VList (xs @ ys))
            | _ \<Rightarrow> Inl (PyExn TypeError
                  (''unsupported operand type(s) for +: '' @ quoted (type_name a) @ '' and ''
                    @ quoted (type_name b))))))"

definition py_iadd :: "pyval \<Rightarrow> pyval \<Rightarrow> pyexn + pyval" where
  \<comment> \<open>\<^verbatim>\<open>a += b\<close>: as \<^verbatim>\<open>a + b\<close>, but a list is extended by any iterable (the
      characters of a string, the keys of a dictionary).\<close>
  "py_iadd a b =
     (case (a, b) of
        (VList xs, VStr t) \<Rightarrow> Inr (VList (xs @ map (\<lambda>c. VStr [c]) t))
      | (VList xs, VDict d) \<Rightarrow> Inr (VList (xs @ map (\<lambda>kv. VStr (fst kv)) d))
      | (VList xs, VList ys) \<Rightarrow> Inr (VList (xs @ ys))
      | (VList xs, _) \<Rightarrow> Inl (PyExn TypeError (quoted (type_name b) @ '' object is not iterable''))
      | _ \<Rightarrow> py_add a b)"


definition cmp_error :: "string \<Rightarrow> pyval \<Rightarrow> pyval \<Rightarrow> pyexn" where
  "cmp_error opr a b =
     PyExn TypeError (quoted opr @ '' not supported between instances of ''
       @ quoted (type_name a) @ '' and '' @ quoted (type_name b))"

definition py_lt_num :: "pyval \<Rightarrow> pyval \<Rightarrow> pyexn + bool" where
  \<comment> \<open>\<^verbatim>\<open>a < c\<close> for a numeric literal \<^verbatim>\<open>c\<close>: a value that is no number raises.\<close>
  "py_lt_num a c =
     (case (num_of a, num_of c) of
        (Some x, Some y) \<Rightarrow> Inr (x < y)
      | _ \<Rightarrow> Inl (cmp_error ''<'' a c))"

definition py_gt_num :: "pyval \<Rightarrow> pyval \<Rightarrow> pyexn + bool" where
  \<comment> \<open>\<^verbatim>\<open>a > c\<close> for a numeric literal \<^verbatim>\<open>c\<close>.\<close>
  "py_gt_num a c =
     (case (num_of a, num_of c) of
        (Some x, Some y) \<Rightarrow> Inr (x > y)
      | _ \<Rightarrow> Inl (cmp_error ''>'' a c))"

definition py_in_nums :: "pyval \<Rightarrow> int list \<Rightarrow> bool" where
  \<comment> \<open>\<^verbatim>\<open>a in [n1, n2, ...]\<close> for integer literals: equality of numbers, never an error.\<close>
  "py_in_nums a ns = (case num_of a of Some x \<Rightarrow> list_ex (\<lambda>n. x = of_int n) ns | None \<Rightarrow> False)"

definition trunc :: "real \<Rightarrow> int" where
  \<comment> \<open>Rounding towards zero, as \<^verbatim>\<open>int(x)\<close> does on a float.\<close>
  "trunc x = (if 0 \<le> x then \<lfloor>x\<rfloor> else \<lceil>x\<rceil>)"

subsection \<open>Strings\<close>

definition is_space :: "char \<Rightarrow> bool" where
  \<comment> \<open>The ASCII characters \<^verbatim>\<open>str.isspace\<close> accepts.\<close>
  "is_space c = (c \<in> set [CHR 0x09, CHR 0x0A, CHR 0x0B, CHR 0x0C, CHR 0x0D,
                            CHR 0x1C, CHR 0x1D, CHR 0x1E, CHR 0x1F, CHR 0x20])"

definition strip :: "string \<Rightarrow> string" where
  \<comment> \<open>\<^verbatim>\<open>s.strip()\<close>\<close>
  "strip s = rev (dropWhile is_space (rev (dropWhile is_space s)))"

fun split_on :: "char \<Rightarrow> string \<Rightarrow> string list" where
  \<comment> \<open>\<^verbatim>\<open>s.split(sep)\<close> for a separator of one character: never an empty list.\<close>
  "split_on sep [] = [[]]"
| "split_on sep (c # cs) =
     (if c = sep then [] # split_on sep cs
      else (case split_on sep cs of p # ps \<Rightarrow> (c # p) # ps | [] \<Rightarrow> [[c]]))"

fun join :: "string \<Rightarrow> string list \<Rightarrow> string" where
  \<comment> \<open>\<^verbatim>\<open>sep.join(xs)\<close>\<close>
  "join sep [] = []"
| "join sep [x] = x"
| "join sep (x # y # ys) = x @ sep @ join sep (y # ys)"

definition upper_char :: "char \<Rightarrow> char" where
  "upper_char c =
     (case map_of (zip ''abcdefghijklmnopqrstuvwxyz'' ''ABCDEFGHIJKLMNOPQRSTUVWXYZ'') c of
        Some u \<Rightarrow> u | None \<Rightarrow> c)"

definition upper :: "string \<Rightarrow> string" where
  \<comment> \<open>\<^verbatim>\<open>s.upper()\<close> on ASCII text\<close>
  "upper s = map upper_char s"

section \<open>The outside world\<close>

text \<open>
  What the agent does not compute itself is a parameter of the model: the external
  command run by \<^verbatim>\<open>subprocess.run\<close> (which may exit with any status, or raise, for
  instance on a timeout or a missing executable), the JSON codec, the text of values in
  f-strings, the clock and the random UUIDs. The world answers by the number of the
  interaction (\<open>tick\<close>), so that two calls with the same arguments may differ.
\<close>

record completed_process =
  returncode :: int
  stdout :: string
  stderr :: string

record env =
  subprocess_run :: "nat \<Rightarrow> string list \<Rightarrow> pyexn + completed_process"
  json_loads :: "string \<Rightarrow> pyexn + pyval"
  json_dumps :: "pyval \<Rightarrow> pyexn + string"
  py_repr :: "pyval \<Rightarrow> string"
  int_of_str :: "string \<Rightarrow> pyexn + int"
  now_isoformat :: "nat \<Rightarrow> string"
  uuid4 :: "nat \<Rightarrow> nat"

record world =
  tick :: nat
  printed :: "string list"

type_synonym 'a m = "world \<Rightarrow> (pyexn + 'a) \<times> world"

definition ret :: "'a \<Rightarrow> 'a m" where
  "ret x w = (Inr x, w)"

definition lift :: "pyexn + 'a \<Rightarrow> 'a m" where
  \<comment> \<open>A computation without effects that returns or raises.\<close>
  "lift r w = (r, w)"

definition bnd :: "'a m \<Rightarrow> ('a \<Rightarrow> 'b m) \<Rightarrow> 'b m" where
  \<comment> \<open>Sequencing: an exception skips the rest; what was printed before stays.\<close>
  "bnd f g w = (case f w of (Inl e, w') \<Rightarrow> (Inl e, w') | (Inr x, w') \<Rightarrow> g x w')"

definition try_except :: "'a m \<Rightarrow> (pyexn \<Rightarrow> 'a m) \<Rightarrow> 'a m" where
  \<comment> \<open>\<^verbatim>\<open>try: f  except Exception as e: h(e)\<close>\<close>
  "try_except f h w = (case f w of (Inl e, w') \<Rightarrow> h e w' | (Inr x, w') \<Rightarrow> (Inr x, w'))"

definition print_line :: "string \<Rightarrow> unit m" where
  "print_line l w = (Inr (), w\<lparr>printed := printed w @ [l]\<rparr>)"

definition run :: "env \<Rightarrow> string list \<Rightarrow> completed_process m" where
  "run env argv w = (subprocess_run env (tick w) argv, w\<lparr>tick := Suc (tick w)\<rparr>)"

definition now :: "env \<Rightarrow> string m" where
  \<comment> \<open>\<^verbatim>\<open>datetime.now().isoformat()\<close>\<close>
  "now env w = (Inr (now_isoformat env (tick w)), w\<lparr>tick := Suc (tick w)\<rparr>)"

definition py_str :: "env \<Rightarrow> pyval \<Rightarrow> string" where
  \<comment> \<open>\<^verbatim>\<open>str(v)\<close>, as an f-string formats a value.\<close>
  "py_str env v =
     (case v of
        VStr s \<Rightarrow> s
      | VNone \<Rightarrow> ''None''
      | VBool b \<Rightarrow> (if b then ''True'' else ''False'')
      | _ \<Rightarrow> py_repr env v)"

definition py_int :: "env \<Rightarrow> pyval \<Rightarrow> pyexn + int" where
  \<comment> \<open>\<^verbatim>\<open>int(v)\<close>: a number is truncated, a string is parsed.\<close>
  "py_int env v =
     (case v of
        VInt i \<Rightarrow> Inr i
      | VBool b \<Rightarrow> Inr (if b then 1 else 0)
      | VFloat x \<Rightarrow> Inr (trunc x)
      | VStr s \<Rightarrow> int_of_str env s
      | _ \<Rightarrow> Inl (PyExn TypeError
            (''int() argument must be a string, a bytes-like object or a real number, not ''
              @ quoted (type_name v))))"

definition iadd_item :: "pydict \<Rightarrow> string \<Rightarrow> pyval \<Rightarrow> pyexn + pydict" where
  \<comment> \<open>\<^verbatim>\<open>d[k] += v\<close>\<close>
  "iadd_item d k v =
     (case getitem d k of
        Inl e \<Rightarrow> Inl e
      | Inr old \<Rightarrow> (case py_iadd old v of Inl e \<Rightarrow> Inl e | Inr new \<Rightarrow> Inr (setitem d k new)))"

section \<open>The tool bridge\<close>

definition mcp_server :: string where
  "mcp_server = ''zapier''"

definition error_result :: "string \<Rightarrow> pyval" where
  \<comment> \<open>\<^verbatim>\<open>{"error": msg}\<close>\<close>
  "error_result msg = VDict [(''error'', VStr msg)]"

definition mcp_argv :: "string \<Rightarrow> string \<Rightarrow> string list" where
  "mcp_argv tool params_json =
     [''manus-mcp-cli'', ''tool'', ''call'', tool, ''--server'', mcp_server, ''--input'', params_json]"

definition call_mcp_tool_body :: "env \<Rightarrow> string \<Rightarrow> pyval \<Rightarrow> pyval m" where
  \<comment> \<open>The \<^verbatim>\<open>try\<close> block of \<^verbatim>\<open>_call_mcp_tool\<close>.\<close>
  "call_mcp_tool_body env tool params =
     bnd (lift (json_dumps env params)) (\<lambda>params_json.
     bnd (run env (mcp_argv tool params_json)) (\<lambda>result.
       if returncode result = 0 then lift (json_loads env (stdout result))
       else bnd (print_line (''MCP tool error: '' @ stderr result)) (\<lambda>_.
            ret (error_result (stderr result)))))"

definition call_mcp_tool :: "env \<Rightarrow> string \<Rightarrow> pyval \<Rightarrow> pyval m" where
  "call_mcp_tool env tool params =
     try_except (call_mcp_tool_body env tool params)
       (\<lambda>e. bnd (print_line (''Exception calling MCP tool: '' @ exn_msg e)) (\<lambda>_.
            ret (error_result (exn_msg e))))"

section \<open>The ledger\<close>

text \<open>
  The agent reads customers and sales through lookup methods of its own
  (\<^verbatim>\<open>_get_customer\<close>, \<^verbatim>\<open>_get_inactive_customers\<close>, \<^verbatim>\<open>_get_recent_customers\<close>,
  \<^verbatim>\<open>_get_sales_data\<close>), which stand for queries to the external customer ledger. The
  operations below take these methods as a record, so that a property can be stated for
  every list a query may return; \<open>shipped_ledger\<close> is the four methods as the source
  has them.
\<close>

record ledger =
  get_customer :: "string \<Rightarrow> pydict"
  get_inactive_customers :: "int \<Rightarrow> pydict list"
  get_recent_customers :: "int \<Rightarrow> pydict list"
  get_sales_data :: "string \<Rightarrow> string \<Rightarrow> pydict list"

definition shipped_ledger :: ledger where
  "shipped_ledger =
     \<lparr>get_customer = (\<lambda>customer_id. [(''id'', VStr customer_id), (''name'', VStr ''Sample Customer'')]),
      get_inactive_customers = (\<lambda>days. []),
      get_recent_customers = (\<lambda>days. []),
      get_sales_data = (\<lambda>store_id period. [])\<rparr>"

section \<open>Customer data management\<close>

definition hex_digit :: "nat \<Rightarrow> char" where
  "hex_digit d = ''0123456789abcdef'' ! d"

definition uuid_hex :: "nat \<Rightarrow> string" where
  \<comment> \<open>\<^verbatim>\<open>UUID.hex\<close>: the 128 bits of the UUID as 32 lower-case hexadecimal digits.\<close>
  "uuid_hex n = map (\<lambda>i. hex_digit ((n mod 2 ^ 128) div 16 ^ (31 - i) mod 16)) [0..<32]"

definition generate_customer_id :: "env \<Rightarrow> string m" where
  \<comment> \<open>\<^verbatim>\<open>f"CUST-{uuid.uuid4().hex[:8].upper()}"\<close>\<close>
  "generate_customer_id env w =
     (Inr (''CUST-'' @ upper (take 8 (uuid_hex (uuid4 env (tick w))))), w\<lparr>tick := Suc (tick w)\<rparr>)"

definition send_message :: "env \<Rightarrow> pydict \<Rightarrow> pyval \<Rightarrow> unit m" where
  "send_message env customer message =
     bnd (lift (getitem customer ''name'')) (\<lambda>name.
     print_line (''Sending to '' @ py_str env name @ '': '' @ py_str env message))"

definition send_welcome_message :: "env \<Rightarrow> pydict \<Rightarrow> unit m" where
  "send_welcome_message env customer =
     bnd (lift (getitem customer ''name'')) (\<lambda>name.
     send_message env customer
       (VStr (''Welcome to Boba Club, '' @ py_str env name @ ''! You've earned 100 points!'')))"

definition store_customer_in_sheets :: "env \<Rightarrow> pydict \<Rightarrow> unit m" where
  "store_customer_in_sheets env customer =
     bnd (lift (getitem customer ''name'')) (\<lambda>name.
     bnd (call_mcp_tool env ''google_sheets_create_spreadsheet_row''
            (VDict [(''instructions'',
                      VStr (''Add new customer '' @ py_str env name @ '' to the Customers sheet'')),
                    (''spreadsheet'', VStr ''BobaBot Customer Database''),
                    (''worksheet'', VStr ''Customers'')])) (\<lambda>_.
     ret ()))"

definition update_customer_in_sheets :: "env \<Rightarrow> pydict \<Rightarrow> unit m" where
  "update_customer_in_sheets env customer =
     bnd (lift (getitem customer ''id'')) (\<lambda>cid.
     bnd (call_mcp_tool env ''google_sheets_update_spreadsheet_row''
            (VDict [(''instructions'',
                      VStr (''Update customer '' @ py_str env cid @ '' with new data'')),
                    (''spreadsheet'', VStr ''BobaBot Customer Database''),
                    (''worksheet'', VStr ''Customers'')])) (\<lambda>_.
     ret ()))"

definition capture_customer :: "env \<Rightarrow> pydict \<Rightarrow> pydict m" where
  "capture_customer env customer_data =
     bnd (generate_customer_id env) (\<lambda>cid.
     bnd (now env) (\<lambda>signup_date.
     let customer =
           [(''id'', VStr cid),
            (''name'', dict_get customer_data ''name'' VNone),
            (''phone'', dict_get customer_data ''phone'' VNone),
            (''email'', dict_get customer_data ''email'' VNone),
            (''favorite_drink'', dict_get customer_data ''favorite_drink'' VNone),
            (''signup_date'', VStr signup_date),
            (''total_visits'', VInt 0),
            (''total_spent'', VFloat 0),
            (''loyalty_points'', VInt 100),
            (''last_visit'', VNone),
            (''status'', VStr ''active'')]
     in bnd (store_customer_in_sheets env customer) (\<lambda>_.
        bnd (send_welcome_message env customer) (\<lambda>_.
        ret customer))))"

definition check_milestone_rewards :: "env \<Rightarrow> pydict \<Rightarrow> unit m" where
  "check_milestone_rewards env customer =
     bnd (lift (getitem customer ''total_visits'')) (\<lambda>visits.
     if py_in_nums visits [5, 10, 25, 50, 100] then
       bnd (lift (getitem customer ''name'')) (\<lambda>name.
       bnd (lift (getitem customer ''total_visits'')) (\<lambda>visits'.
       print_line (''Milestone! '' @ py_str env name @ '' reached '' @ py_str env visits'
                     @ '' visits!'')))
     else ret ())"

definition track_purchase :: "env \<Rightarrow> ledger \<Rightarrow> string \<Rightarrow> pydict \<Rightarrow> pydict m" where
  "track_purchase env L customer_id purchase_data =
     (let customer = get_customer L customer_id in
      bnd (lift (iadd_item customer ''total_visits'' (VInt 1))) (\<lambda>customer.
      bnd (lift (getitem customer ''total_spent'')) (\<lambda>spent.
      bnd (lift (getitem purchase_data ''total_amount'')) (\<lambda>amount.
      bnd (lift (py_iadd spent amount)) (\<lambda>spent'.
      bnd (now env) (\<lambda>last_visit.
      let customer = setitem (setitem customer ''total_spent'' spent') ''last_visit'' (VStr last_visit) in
      bnd (lift (getitem purchase_data ''total_amount'')) (\<lambda>amount'.
      bnd (lift (py_int env amount')) (\<lambda>points_earned.
      bnd (lift (iadd_item customer ''loyalty_points'' (VInt points_earned))) (\<lambda>customer.
      bnd (update_customer_in_sheets env customer) (\<lambda>_.
      bnd (check_milestone_rewards env customer) (\<lambda>_.
      ret customer)))))))))))"

section \<open>Marketing automation\<close>

text \<open>
  The re-engagement and the recommendation campaign. The birthday campaign, the inventory
  forecast and the demo of the main program are not part of this development.
\<close>

fun for_each :: "('a \<Rightarrow> 'r \<Rightarrow> 'r m) \<Rightarrow> 'a list \<Rightarrow> 'r \<Rightarrow> 'r m" where
  \<comment> \<open>\<^verbatim>\<open>for x in xs: body\<close>, where the body updates the dictionary of results; an
      exception that leaves the body ends the loop.\<close>
  "for_each body [] r = ret r"
| "for_each body (x # xs) r = bnd (body x r) (for_each body xs)"

definition we_miss_you_prompt :: "env \<Rightarrow> pyval \<Rightarrow> string \<Rightarrow> pydict \<Rightarrow> string" where
  "we_miss_you_prompt env name campaign_type customer =
     ''\<newline>        Write a friendly, personalized marketing message in Vietnamese for ''
       @ py_str env name
     @ ''.\<newline>        Campaign type: '' @ campaign_type
     @ ''\<newline>        Customer details:\<newline>        - Favorite drink: ''
       @ py_str env (dict_get customer ''favorite_drink'' (VStr ''unknown''))
     @ ''\<newline>        - Total visits: '' @ py_str env (dict_get customer ''total_visits'' (VInt 0))
     @ ''\<newline>        - Last visit: '' @ py_str env (dict_get customer ''last_visit'' (VStr ''unknown''))
     @ ''\<newline>        \<newline>        Keep it warm, casual, and under 100 words.''
     @ ''\<newline>        Include a special 15% discount offer.\<newline>        ''"

definition personalized_message_params :: "env \<Rightarrow> pyval \<Rightarrow> string \<Rightarrow> pydict \<Rightarrow> pyval" where
  "personalized_message_params env name campaign_type customer =
     VDict [(''prompt'', VStr (we_miss_you_prompt env name campaign_type customer)),
            (''instructions'', VStr ''Generate a personalized marketing message'')]"

definition generate_personalized_message :: "env \<Rightarrow> pydict \<Rightarrow> string \<Rightarrow> pyval m" where
  "generate_personalized_message env customer campaign_type =
     bnd (lift (getitem customer ''name'')) (\<lambda>name.
     bnd (call_mcp_tool env ''google_vertex_ai_send_prompt''
            (personalized_message_params env name campaign_type customer)) (\<lambda>result.
     lift (py_get result ''text'' (VStr ''We miss you! Come back for 15% off!''))))"

definition we_miss_you_step :: "env \<Rightarrow> pydict \<Rightarrow> pydict \<Rightarrow> pydict m" where
  \<comment> \<open>The body of the loop of \<^verbatim>\<open>_run_we_miss_you_campaign\<close>: the \<^verbatim>\<open>try\<close> block
      and its handler.\<close>
  "we_miss_you_step env customer results =
     try_except
       (bnd (generate_personalized_message env customer ''we_miss_you'') (\<lambda>message.
        bnd (send_message env customer message) (\<lambda>_.
        lift (iadd_item results ''messages_sent'' (VInt 1)))))
       (\<lambda>e.
        bnd (lift (getitem customer ''name'')) (\<lambda>name.
        bnd (print_line (''Error sending to '' @ py_str env name @ '': '' @ exn_msg e)) (\<lambda>_.
        lift (iadd_item results ''errors'' (VInt 1)))))"

definition run_we_miss_you_campaign :: "env \<Rightarrow> ledger \<Rightarrow> pydict m" where
  "run_we_miss_you_campaign env L =
     (let inactive_customers = get_inactive_customers L 30;
          results = [(''campaign'', VStr ''We Miss You''),
                     (''target_count'', VInt (int (length inactive_customers))),
                     (''messages_sent'', VInt 0),
                     (''errors'', VInt 0)]
      in for_each (we_miss_you_step env) inactive_customers results)"

definition recommendation_prompt :: "env \<Rightarrow> pydict \<Rightarrow> string" where
  "recommendation_prompt env customer =
     ''\<newline>        Based on this customer's purchase history, recommend 2-3 new drinks they might enjoy:''
     @ ''\<newline>        - Favorite drink: '' @ py_str env (dict_get customer ''favorite_drink'' VNone)
     @ ''\<newline>        - Total visits: '' @ py_str env (dict_get customer ''total_visits'' VNone)
     @ ''\<newline>        \<newline>        Respond with just the drink names, one per line.\<newline>        ''"

definition str_strip :: "pyval \<Rightarrow> pyexn + string" where
  \<comment> \<open>\<^verbatim>\<open>v.strip()\<close>: only a string has the method.\<close>
  "str_strip v = (case v of VStr s \<Rightarrow> Inr (strip s) | _ \<Rightarrow> Inl (no_attribute v ''strip''))"

definition recommendation_params :: "env \<Rightarrow> pydict \<Rightarrow> pyval" where
  "recommendation_params env customer =
     VDict [(''prompt'', VStr (recommendation_prompt env customer)),
            (''instructions'', VStr ''Generate product recommendations'')]"

definition get_ai_recommendations :: "env \<Rightarrow> pydict \<Rightarrow> string list m" where
  "get_ai_recommendations env customer =
     bnd (call_mcp_tool env ''google_vertex_ai_send_prompt'' (recommendation_params env customer))
         (\<lambda>result.
     bnd (lift (py_get result ''text'' (VStr []))) (\<lambda>text.
     bnd (lift (str_strip text)) (\<lambda>stripped.
     let recommendations = split_on (CHR 0x0A) stripped
     in ret (map strip (filter (\<lambda>r. strip r \<noteq> []) recommendations)))))"

definition generate_recommendation_message :: "env \<Rightarrow> pydict \<Rightarrow> string list \<Rightarrow> pyval m" where
  "generate_recommendation_message env customer recommendations =
     (let items = join '', '' recommendations in
      bnd (lift (getitem customer ''name'')) (\<lambda>name.
      ret (VStr (''Hi '' @ py_str env name @ ''! Based on your taste, you might love: '' @ items))))"

definition recommendation_step :: "env \<Rightarrow> pydict \<Rightarrow> pydict \<Rightarrow> pydict m" where
  \<comment> \<open>The body of the loop of \<^verbatim>\<open>_run_recommendation_campaign\<close>.\<close>
  "recommendation_step env customer results =
     bnd (get_ai_recommendations env customer) (\<lambda>recommendations.
     if recommendations \<noteq> [] then
       bnd (generate_recommendation_message env customer recommendations) (\<lambda>message.
       bnd (send_message env customer message) (\<lambda>_.
       lift (iadd_item results ''recommendations_sent'' (VInt 1))))
     else ret results)"

definition run_recommendation_campaign :: "env \<Rightarrow> ledger \<Rightarrow> pydict m" where
  "run_recommendation_campaign env L =
     (let recent_customers = get_recent_customers L 7;
          results = [(''campaign'', VStr ''Personalized Recommendations''),
                     (''target_count'', VInt (int (length recent_customers))),
                     (''recommendations_sent'', VInt 0)]
      in for_each (recommendation_step env) recent_customers results)"

section \<open>Operations intelligence\<close>







definition alert_manager :: "string \<Rightarrow> unit m" where
  "alert_manager message = print_line (''ALERT: '' @ message)"

definition generate_apology_email :: "string \<Rightarrow> string" where
  "generate_apology_email feedback =
     ''We're sorry for your experience. Please accept this free drink coupon.''"

definition sentiment_params :: "string \<Rightarrow> pyval" where
  "sentiment_params feedback_text =
     VDict [(''text'', VStr feedback_text),
            (''instructions'', VStr ''Analyze the sentiment of this customer feedback'')]"

definition analyze_customer_sentiment :: "env \<Rightarrow> string \<Rightarrow> pydict m" where
  "analyze_customer_sentiment env feedback_text =
     bnd (call_mcp_tool env ''google_vertex_ai_analyze_text_sentiment''
            (sentiment_params feedback_text)) (\<lambda>sentiment.
     bnd (lift (py_get sentiment ''score'' (VInt 0))) (\<lambda>score.
     bnd (lift (py_lt_num score (VFloat (- 0.5)))) (\<lambda>negative.
     if negative then
       bnd (alert_manager (''Negative feedback detected: '' @ feedback_text)) (\<lambda>_.
       let apology = generate_apology_email feedback_text in
       bnd (lift (py_get sentiment ''score'' VNone)) (\<lambda>score_field.
       ret [(''sentiment'', VStr ''negative''),
            (''score'', score_field),
            (''action_taken'', VStr ''manager_alerted_and_apology_generated''),
            (''apology_email'', VStr apology)]))
     else
       bnd (lift (py_get sentiment ''score'' (VInt 0))) (\<lambda>score'.
       bnd (lift (py_gt_num score' (VInt 0))) (\<lambda>positive.
       bnd (lift (py_get sentiment ''score'' VNone)) (\<lambda>score_field.
       ret [(''sentiment'', VStr (if positive then ''positive'' else ''neutral'')),
            (''score'', score_field),
            (''action_taken'', VStr ''none'')]))))))"

section \<open>Example worlds\<close>

text \<open>
  Concrete worlds on which the theorems below are run: an external command with a fixed
  outcome, a JSON decoder that knows a few replies (written here without the double quotes
  of JSON), a fixed clock and a fixed UUID.
\<close>

definition example_loads :: "string \<Rightarrow> pyexn + pyval" where
  "example_loads s =
     (if s = ''{text: Taro Milk Tea}'' then Inr (VDict [(''text'', VStr ''Taro Milk Tea'')])
      else if s = ''{score: -0.6}'' then Inr (VDict [(''score'', VFloat (- 0.6))])
      else if s = ''{score: -0.5}'' then Inr (VDict [(''score'', VFloat (- 0.5))])
      else if s = ''{score: 0.3}'' then Inr (VDict [(''score'', VFloat 0.3)])
      else if s = ''{score: 0}'' then Inr (VDict [(''score'', VInt 0)])
      else if s = ''{}'' then Inr (VDict [])
      else if s = ''[]'' then Inr (VList [])
      else Inl (PyExn JSONDecodeError ''Expecting value: line 1 column 1 (char 0)''))"

definition example_env :: "(pyexn + completed_process) \<Rightarrow> env" where
  "example_env outcome =
     \<lparr>subprocess_run = (\<lambda>n argv. outcome),
      json_loads = example_loads,
      json_dumps = (\<lambda>v. Inr ''{}''),
      py_repr = (\<lambda>v. ''<value>''),
      int_of_str = (\<lambda>s. Inl (PyExn ValueError ''invalid literal for int() with base 10'')),
      now_isoformat = (\<lambda>n. ''2025-01-01T09:00:00''),
      uuid4 = (\<lambda>n. 0x1a2b3c4d5e6f40718293a4b5c6d7e8f9)\<rparr>"

definition exits :: "int \<Rightarrow> string \<Rightarrow> string \<Rightarrow> pyexn + completed_process" where
  "exits code out err = Inr \<lparr>returncode = code, stdout = out, stderr = err\<rparr>"

definition times_out :: "pyexn + completed_process" where
  "times_out = Inl (PyExn TimeoutExpired ''Command timed out after 30 seconds'')"

definition start :: world where
  "start = \<lparr>tick = 0, printed = []\<rparr>"

definition anonymous_customer :: pydict where
  \<comment> \<open>A ledger row without a name.\<close>
  "anonymous_customer = [(''id'', VStr ''CUST-00000001'')]"

definition lan :: pydict where
  "lan = [(''id'', VStr ''CUST-00000002''), (''name'', VStr ''Lan''),
          (''favorite_drink'', VStr ''Taro Milk Tea''), (''total_visits'', VInt 3),
          (''total_spent'', VFloat 12.5), (''loyalty_points'', VInt 100)]"

definition quiet :: env where
  \<comment> \<open>Every tool call succeeds and answers with an empty JSON object.\<close>
  "quiet = example_env (exits 0 ''{}'' [])"

definition ledger_holding :: "pydict \<Rightarrow> ledger" where
  \<comment> \<open>A ledger whose customer lookup answers with the given profile.\<close>
  "ledger_holding profile = shipped_ledger\<lparr>get_customer := \<lambda>customer_id. profile\<rparr>"

definition ledger_with_inactive :: "pydict list \<Rightarrow> ledger" where
  "ledger_with_inactive customers = shipped_ledger\<lparr>get_inactive_customers := \<lambda>days. customers\<rparr>"

definition ledger_with_recent :: "pydict list \<Rightarrow> ledger" where
  "ledger_with_recent customers = shipped_ledger\<lparr>get_recent_customers := \<lambda>days. customers\<rparr>"



definition campaign_results :: "int \<Rightarrow> int \<Rightarrow> int \<Rightarrow> pydict" where
  \<comment> \<open>The result dictionary of the re-engagement campaign.\<close>
  "campaign_results n sent errors =
     [(''campaign'', VStr ''We Miss You''), (''target_count'', VInt n),
      (''messages_sent'', VInt sent), (''errors'', VInt errors)]"

definition recommendation_results :: "int \<Rightarrow> int \<Rightarrow> pydict" where
  \<comment> \<open>The result dictionary of the recommendation campaign.\<close>
  "recommendation_results n sent =
     [(''campaign'', VStr ''Personalized Recommendations''), (''target_count'', VInt n),
      (''recommendations_sent'', VInt sent)]"

section \<open>Facts about the model\<close>

lemmas m_defs = bnd_def ret_def lift_def try_except_def print_line_def

lemma map_of_setitem: "map_of (setitem d k v) = (map_of d)(k \<mapsto> v)"
  by (induction d) auto






lemma py_iadd_numbers:
  assumes "num_of a = Some x" and "num_of b = Some y"
  shows "\<exists>v. py_iadd a b = Inr v \<and> num_of v = Some (x + y)"
  using assms by (cases a; cases b) (auto simp: py_iadd_def py_add_def)

lemma py_int_number: "num_of v = Some a \<Longrightarrow> py_int env v = Inr (trunc a)"
  by (cases v) (auto simp: py_int_def trunc_def)

lemma trunc_nonneg: "0 \<le> a \<Longrightarrow> trunc a = \<lfloor>a\<rfloor>"
  by (simp add: trunc_def)

subsection \<open>The tool bridge, case by case\<close>

lemma call_mcp_tool_cases:
  "call_mcp_tool env tool params w =
     (case json_dumps env params of
        Inl e \<Rightarrow> (Inr (error_result (exn_msg e)),
                   w\<lparr>printed := printed w @ [''Exception calling MCP tool: '' @ exn_msg e]\<rparr>)
      | Inr pj \<Rightarrow>
         (case subprocess_run env (tick w) (mcp_argv tool pj) of
            Inl e \<Rightarrow> (Inr (error_result (exn_msg e)),
                   w\<lparr>tick := Suc (tick w), printed := printed w @ [''Exception calling MCP tool: '' @ exn_msg e]\<rparr>)
          | Inr p \<Rightarrow>
             if returncode p = 0 then
               (case json_loads env (stdout p) of
                  Inl e \<Rightarrow> (Inr (error_result (exn_msg e)),
                     w\<lparr>tick := Suc (tick w), printed := printed w @ [''Exception calling MCP tool: '' @ exn_msg e]\<rparr>)
                | Inr v \<Rightarrow> (Inr v, w\<lparr>tick := Suc (tick w)\<rparr>))
             else (Inr (error_result (stderr p)),
                     w\<lparr>tick := Suc (tick w), printed := printed w @ [''MCP tool error: '' @ stderr p]\<rparr>)))"
  by (simp add: call_mcp_tool_def call_mcp_tool_body_def m_defs run_def split: sum.splits)

lemma call_mcp_tool_returns: "\<exists>r w'. call_mcp_tool env tool params w = (Inr r, w')"
  by (simp add: call_mcp_tool_cases split: sum.splits)

lemma example_call_exit0:
  "call_mcp_tool (example_env (exits 0 out err)) tool params w =
     (case example_loads out of
        Inl e \<Rightarrow> (Inr (error_result (exn_msg e)),
           w\<lparr>tick := Suc (tick w), printed := printed w @ [''Exception calling MCP tool: '' @ exn_msg e]\<rparr>)
      | Inr v \<Rightarrow> (Inr v, w\<lparr>tick := Suc (tick w)\<rparr>))"
  by (simp add: call_mcp_tool_cases example_env_def exits_def)

lemma example_call_failed:
  "code \<noteq> 0 \<Longrightarrow> call_mcp_tool (example_env (exits code out err)) tool params w =
     (Inr (error_result err),
      w\<lparr>tick := Suc (tick w), printed := printed w @ [''MCP tool error: '' @ err]\<rparr>)"
  by (simp add: call_mcp_tool_cases example_env_def exits_def)

lemma example_call_timeout:
  "call_mcp_tool (example_env times_out) tool params w =
     (Inr (error_result ''Command timed out after 30 seconds''),
      w\<lparr>tick := Suc (tick w), printed := printed w @
         [''Exception calling MCP tool: Command timed out after 30 seconds'']\<rparr>)"
  by (simp add: call_mcp_tool_cases example_env_def times_out_def)

section \<open>The tool bridge never raises\<close>



section \<open>Customer capture\<close>

lemma upper_hex_digits:
  "list_all (\<lambda>d. upper_char (hex_digit d) \<in> set ''0123456789ABCDEF'') [0..<16]"
  by (simp add: upt_conv_Cons hex_digit_def upper_char_def)

lemma upper_hex_digit: "d < 16 \<Longrightarrow> upper_char (hex_digit d) \<in> set ''0123456789ABCDEF''"
  using upper_hex_digits unfolding list_all_iff by (metis atLeastLessThan_iff set_upt zero_le)

lemma customer_id_format:
  "length (upper (take 8 (uuid_hex n))) = 8 \<and>
   list_all (\<lambda>c. c \<in> set ''0123456789ABCDEF'') (upper (take 8 (uuid_hex n)))"
  by (simp add: uuid_hex_def upper_def take_map list_all_iff upper_hex_digit del: set_simps)

lemma capture_customer_result:
  "\<exists>w'. capture_customer env customer_data w =
       (Inr [(''id'', VStr (''CUST-'' @ upper (take 8 (uuid_hex (uuid4 env (tick w)))))),
             (''name'', dict_get customer_data ''name'' VNone),
             (''phone'', dict_get customer_data ''phone'' VNone),
             (''email'', dict_get customer_data ''email'' VNone),
             (''favorite_drink'', dict_get customer_data ''favorite_drink'' VNone),
             (''signup_date'', VStr (now_isoformat env (Suc (tick w)))),
             (''total_visits'', VInt 0),
             (''total_spent'', VFloat 0),
             (''loyalty_points'', VInt 100),
             (''last_visit'', VNone),
             (''status'', VStr ''active'')], w')"
proof -
  define name where "name = dict_get customer_data ''name'' VNone"
  define w2 where "w2 = w\<lparr>tick := Suc (Suc (tick w))\<rparr>"
  obtain r w3 where call:
    "call_mcp_tool env ''google_sheets_create_spreadsheet_row''
       (VDict [(''instructions'',
                 VStr (''Add new customer '' @ py_str env name @ '' to the Customers sheet'')),
               (''spreadsheet'', VStr ''BobaBot Customer Database''),
               (''worksheet'', VStr ''Customers'')]) w2 = (Inr r, w3)"
    using call_mcp_tool_returns by blast
  then show ?thesis
    by (simp add: capture_customer_def generate_customer_id_def now_def store_customer_in_sheets_def
        send_welcome_message_def send_message_def getitem_def m_defs name_def w2_def)
qed

text \<open>
  Claim C7. For every input dictionary and every behaviour of the outside world,
  \<^verbatim>\<open>capture_customer\<close> returns a profile: its id is \<^verbatim>\<open>CUST-\<close> followed by 8 characters
  among \<^verbatim>\<open>0123456789ABCDEF\<close>; name, phone, email and favourite drink are the input's
  entries, \<^verbatim>\<open>None\<close> where the input has none; visits are 0, spending 0, loyalty points
  100, the last visit \<^verbatim>\<open>None\<close> and the status \<^verbatim>\<open>active\<close>. The world is arbitrary, so the
  profile is the same whether the call that stores the customer succeeded or came back
  error-tagged.
\<close>

theorem capture_customer_profile:
  "\<exists>h signup_date w'.
     capture_customer env customer_data w =
       (Inr [(''id'', VStr (''CUST-'' @ h)),
             (''name'', dict_get customer_data ''name'' VNone),
             (''phone'', dict_get customer_data ''phone'' VNone),
             (''email'', dict_get customer_data ''email'' VNone),
             (''favorite_drink'', dict_get customer_data ''favorite_drink'' VNone),
             (''signup_date'', VStr signup_date),
             (''total_visits'', VInt 0),
             (''total_spent'', VFloat 0),
             (''loyalty_points'', VInt 100),
             (''last_visit'', VNone),
             (''status'', VStr ''active'')], w')
     \<and> length h = 8 \<and> list_all (\<lambda>c. c \<in> set ''0123456789ABCDEF'') h"
  using capture_customer_result[of env customer_data w]
        customer_id_format[of "uuid4 env (tick w)"]
  by blast

section \<open>Purchase tracking\<close>

text \<open>
  Claim C5 (the code departs from it). With the customer lookup as the source has it,
  \<^verbatim>\<open>_get_customer\<close> answers with a dictionary of only \<^verbatim>\<open>id\<close> and \<^verbatim>\<open>name\<close>, so the first
  update \<^verbatim>\<open>customer["total_visits"] += 1\<close> raises KeyError for every customer id and
  every purchase: \<^verbatim>\<open>track_purchase\<close> returns no profile, nothing is printed and no tool
  is called.
\<close>

theorem track_purchase_shipped_raises:
  "track_purchase env shipped_ledger customer_id purchase_data w =
     (Inl (PyExn KeyError (quoted ''total_visits'')), w)"
  by (simp add: track_purchase_def shipped_ledger_def iadd_item_def getitem_def m_defs)

text \<open>
  What the updates of \<^verbatim>\<open>track_purchase\<close> do once the ledger answers with a complete
  profile (numeric visits, spending and loyalty points, an id and a name): for a purchase
  with a numeric amount \<open>a \<ge> 0\<close> the returned profile has one more visit, spending raised
  by \<open>a\<close>, loyalty points raised by \<open>\<lfloor>a\<rfloor>\<close> and the last visit set to the time read
  from the clock.
\<close>

theorem track_purchase_updates_profile:
  assumes "map_of (get_customer L customer_id) ''total_visits'' = Some visits"
      and "num_of visits = Some n"
      and "map_of (get_customer L customer_id) ''total_spent'' = Some spent"
      and "num_of spent = Some s"
      and "map_of (get_customer L customer_id) ''loyalty_points'' = Some pts"
      and "num_of pts = Some k"
      and "map_of (get_customer L customer_id) ''id'' = Some cid"
      and "map_of (get_customer L customer_id) ''name'' = Some name"
      and "map_of purchase_data ''total_amount'' = Some amount"
      and "num_of amount = Some a" and "0 \<le> a"
  shows "\<exists>customer' w' visits' spent' pts'.
           track_purchase env L customer_id purchase_data w = (Inr customer', w')
         \<and> map_of customer' ''total_visits'' = Some visits' \<and> num_of visits' = Some (n + 1)
         \<and> map_of customer' ''total_spent'' = Some spent' \<and> num_of spent' = Some (s + a)
         \<and> map_of customer' ''loyalty_points'' = Some pts'
         \<and> num_of pts' = Some (k + of_int \<lfloor>a\<rfloor>)
         \<and> map_of customer' ''last_visit'' = Some (VStr (now_isoformat env (tick w)))"
proof -
  let ?c = "get_customer L customer_id"
  from py_iadd_numbers[OF assms(2), of "VInt 1" 1]
  obtain visits' where v: "py_iadd visits (VInt 1) = Inr visits'" "num_of visits' = Some (n + 1)"
    by auto
  from py_iadd_numbers[OF assms(4) assms(10)]
  obtain spent' where sp: "py_iadd spent amount = Inr spent'" "num_of spent' = Some (s + a)"
    by auto
  from py_iadd_numbers[OF assms(6), of "VInt (trunc a)" "of_int (trunc a)"]
  obtain pts' where p: "py_iadd pts (VInt (trunc a)) = Inr pts'"
      "num_of pts' = Some (k + of_int (trunc a))"
    by auto
  let ?c' = "setitem (setitem (setitem (setitem ?c ''total_visits'' visits') ''total_spent'' spent')
               ''last_visit'' (VStr (now_isoformat env (tick w)))) ''loyalty_points'' pts'"
  obtain r w2 where call:
    "call_mcp_tool env ''google_sheets_update_spreadsheet_row''
       (VDict [(''instructions'', VStr (''Update customer '' @ py_str env cid @ '' with new data'')),
               (''spreadsheet'', VStr ''BobaBot Customer Database''),
               (''worksheet'', VStr ''Customers'')]) (w\<lparr>tick := Suc (tick w)\<rparr>) = (Inr r, w2)"
    using call_mcp_tool_returns by blast
  have "\<exists>w'. track_purchase env L customer_id purchase_data w = (Inr ?c', w')"
    using assms v sp p call
    by (simp add: track_purchase_def Let_def iadd_item_def getitem_def now_def
        py_int_number[OF assms(10)] update_customer_in_sheets_def check_milestone_rewards_def
        map_of_setitem m_defs)
  moreover have "map_of ?c' ''total_visits'' = Some visits'" "map_of ?c' ''total_spent'' = Some spent'"
    "map_of ?c' ''loyalty_points'' = Some pts'"
    "map_of ?c' ''last_visit'' = Some (VStr (now_isoformat env (tick w)))"
    by (simp_all add: map_of_setitem)
  ultimately show ?thesis
    using v(2) sp(2) p(2) assms(11) by (auto simp: trunc_nonneg)
qed

theorem track_purchase_updates_profile_witness:
  "\<exists>customer' w' visits' spent' pts'.
           track_purchase quiet (ledger_holding lan) ''CUST-00000002''
             [(''total_amount'', VFloat 7.5)] start = (Inr customer', w')
         \<and> map_of customer' ''total_visits'' = Some visits' \<and> num_of visits' = Some 4
         \<and> map_of customer' ''total_spent'' = Some spent' \<and> num_of spent' = Some 20
         \<and> map_of customer' ''loyalty_points'' = Some pts'
         \<and> num_of pts' = Some 107
         \<and> map_of customer' ''last_visit'' = Some (VStr ''2025-01-01T09:00:00'')"
  using track_purchase_updates_profile[of "ledger_holding lan" "''CUST-00000002''"
          "VInt 3" 3 "VFloat 12.5" "12.5" "VInt 100" 100 "VStr ''CUST-00000002''" "VStr ''Lan''"
          "[(''total_amount'', VFloat 7.5)]" "VFloat 7.5" "7.5" quiet start]
  by (simp add: ledger_holding_def lan_def quiet_def example_env_def start_def)

subsection \<open>Loyalty points\<close>





section \<open>The re-engagement campaign\<close>

text \<open>
  Claim C1 (the code departs from it). The handler of the \<^verbatim>\<open>try\<close> block prints
  \<^verbatim>\<open>customer['name']\<close>. For a customer without a \<^verbatim>\<open>name\<close> entry, building the prompt raises
  KeyError, the handler catches it and raises KeyError again while formatting its log
  line: the exception leaves the loop, no result is returned, the error counter is not
  incremented and the customers after it are not processed. Here the inactive customers
  are a row without a name followed by Lan; the campaign ends with the KeyError in the
  world it started in (nothing printed, no tool called).
\<close>

theorem we_miss_you_handler_raises:
  "run_we_miss_you_campaign env (ledger_with_inactive [anonymous_customer, lan]) w
   = (Inl (PyExn KeyError (quoted ''name'')), w)"
  by (simp add: run_we_miss_you_campaign_def we_miss_you_step_def generate_personalized_message_def
      ledger_with_inactive_def anonymous_customer_def getitem_def m_defs)

lemma we_miss_you_step_named:
  assumes "map_of customer ''name'' = Some name"
      and "map_of results ''messages_sent'' = Some (VInt a)"
      and "map_of results ''errors'' = Some (VInt b)"
  shows "(\<exists>w'. we_miss_you_step env customer results w =
                 (Inr (setitem results ''messages_sent'' (VInt (a + 1))), w'))
       \<or> (\<exists>w'. we_miss_you_step env customer results w =
                 (Inr (setitem results ''errors'' (VInt (b + 1))), w'))"
proof -
  obtain r w1 where call:
    "call_mcp_tool env ''google_vertex_ai_send_prompt''
       (personalized_message_params env name ''we_miss_you'' customer) w = (Inr r, w1)"
    using call_mcp_tool_returns by blast
  show ?thesis
    using assms call
    by (cases r)
       (simp_all add: we_miss_you_step_def generate_personalized_message_def send_message_def
          getitem_def py_get_def iadd_item_def py_iadd_def py_add_def m_defs)
qed

lemma we_miss_you_loop_named:
  assumes "list_all (\<lambda>c. map_of c ''name'' \<noteq> None) customers"
      and "map_of results ''messages_sent'' = Some (VInt a)"
      and "map_of results ''errors'' = Some (VInt b)"
  shows "\<exists>r w' a' b'. for_each (we_miss_you_step env) customers results w = (Inr r, w')
           \<and> map_of r ''messages_sent'' = Some (VInt a')
           \<and> map_of r ''errors'' = Some (VInt b')
           \<and> a' + b' = a + b + int (length customers)
           \<and> map_of r ''target_count'' = map_of results ''target_count''"
  using assms
proof (induction customers arbitrary: results w a b)
  case Nil
  then show ?case by (simp add: ret_def)
next
  case (Cons c cs)
  from Cons.prems(1) obtain name where name: "map_of c ''name'' = Some name" by auto
  from Cons.prems(1) have rest: "list_all (\<lambda>c. map_of c ''name'' \<noteq> None) cs" by simp
  from we_miss_you_step_named[OF name Cons.prems(2) Cons.prems(3), of env w]
  show ?case
  proof
    assume "\<exists>w'. we_miss_you_step env c results w =
                 (Inr (setitem results ''messages_sent'' (VInt (a + 1))), w')"
    then obtain w1 where s: "we_miss_you_step env c results w =
                 (Inr (setitem results ''messages_sent'' (VInt (a + 1))), w1)" ..
    have "\<exists>r w' a' b'.
            for_each (we_miss_you_step env) cs (setitem results ''messages_sent'' (VInt (a + 1))) w1
              = (Inr r, w')
          \<and> map_of r ''messages_sent'' = Some (VInt a') \<and> map_of r ''errors'' = Some (VInt b')
          \<and> a' + b' = (a + 1) + b + int (length cs)
          \<and> map_of r ''target_count''
              = map_of (setitem results ''messages_sent'' (VInt (a + 1))) ''target_count''"
      using Cons.prems by (intro Cons.IH[OF rest]) (simp_all add: map_of_setitem)
    then show ?thesis
      using s by (auto simp: bnd_def map_of_setitem)
  next
    assume "\<exists>w'. we_miss_you_step env c results w =
                 (Inr (setitem results ''errors'' (VInt (b + 1))), w')"
    then obtain w1 where s: "we_miss_you_step env c results w =
                 (Inr (setitem results ''errors'' (VInt (b + 1))), w1)" ..
    have "\<exists>r w' a' b'.
            for_each (we_miss_you_step env) cs (setitem results ''errors'' (VInt (b + 1))) w1
              = (Inr r, w')
          \<and> map_of r ''messages_sent'' = Some (VInt a') \<and> map_of r ''errors'' = Some (VInt b')
          \<and> a' + b' = a + (b + 1) + int (length cs)
          \<and> map_of r ''target_count''
              = map_of (setitem results ''errors'' (VInt (b + 1))) ''target_count''"
      using Cons.prems by (intro Cons.IH[OF rest]) (simp_all add: map_of_setitem)
    then show ?thesis
      using s by (auto simp: bnd_def map_of_setitem)
  qed
qed

text \<open>
  Where every targeted customer has a \<^verbatim>\<open>name\<close> entry, the isolation holds: whatever the
  tool bridge answers (also a payload that is no dictionary, on which \<^verbatim>\<open>result.get\<close>
  raises AttributeError), the campaign returns a result whose \<^verbatim>\<open>messages_sent\<close> and
  \<^verbatim>\<open>errors\<close> add up to the number of targeted customers, which is its \<^verbatim>\<open>target_count\<close>.
\<close>

theorem we_miss_you_isolates_named_customers:
  assumes "list_all (\<lambda>c. map_of c ''name'' \<noteq> None) (get_inactive_customers L 30)"
  shows "\<exists>r w' sent errors.
           run_we_miss_you_campaign env L w = (Inr r, w')
         \<and> map_of r ''messages_sent'' = Some (VInt sent)
         \<and> map_of r ''errors'' = Some (VInt errors)
         \<and> sent + errors = int (length (get_inactive_customers L 30))
         \<and> map_of r ''target_count'' = Some (VInt (int (length (get_inactive_customers L 30))))"
proof -
  let ?cs = "get_inactive_customers L 30"
  let ?r0 = "[(''campaign'', VStr ''We Miss You''), (''target_count'', VInt (int (length ?cs))),
              (''messages_sent'', VInt 0), (''errors'', VInt 0)]"
  have "\<exists>r w' a' b'. for_each (we_miss_you_step env) ?cs ?r0 w = (Inr r, w')
           \<and> map_of r ''messages_sent'' = Some (VInt a')
           \<and> map_of r ''errors'' = Some (VInt b')
           \<and> a' + b' = 0 + 0 + int (length ?cs)
           \<and> map_of r ''target_count'' = map_of ?r0 ''target_count''"
    by (rule we_miss_you_loop_named[OF assms]) simp_all
  then show ?thesis
    by (simp add: run_we_miss_you_campaign_def Let_def)
qed

theorem we_miss_you_isolates_named_customers_witness:
  "\<exists>r w' sent errors.
     run_we_miss_you_campaign (example_env (exits 0 ''[]'' [])) (ledger_with_inactive [lan, lan]) start
       = (Inr r, w')
     \<and> map_of r ''messages_sent'' = Some (VInt sent)
     \<and> map_of r ''errors'' = Some (VInt errors)
     \<and> sent + errors = 2
     \<and> map_of r ''target_count'' = Some (VInt 2)"
  using we_miss_you_isolates_named_customers[of "ledger_with_inactive [lan, lan]"
          "example_env (exits 0 ''[]'' [])" start]
  by (simp add: ledger_with_inactive_def lan_def)

text \<open>
  Claim C9. In the re-engagement campaign, when the tool bridge answers the message
  prompt with a dictionary that has no \<^verbatim>\<open>text\<close> entry (an error-tagged result
  \<^verbatim>\<open>{"error": msg}\<close> is one), \<^verbatim>\<open>_generate_personalized_message\<close> returns the default text
  \<^verbatim>\<open>We miss you! Come back for 15% off!\<close>, the customer is sent that text,
  \<^verbatim>\<open>messages_sent\<close> is incremented and \<^verbatim>\<open>errors\<close> is left as it was. The bridge is called
  only after the prompt was built from the customer's name, so the customer has one.
\<close>

theorem bridge_failure_still_sends:
  assumes "map_of customer ''name'' = Some name"
      and "call_mcp_tool env ''google_vertex_ai_send_prompt''
             (personalized_message_params env name ''we_miss_you'' customer) w = (Inr (VDict d), w')"
      and "map_of d ''text'' = None"
      and "map_of results ''messages_sent'' = Some (VInt k)"
  shows "we_miss_you_step env customer results w =
           (Inr (setitem results ''messages_sent'' (VInt (k + 1))),
            w'\<lparr>printed := printed w' @
               [''Sending to '' @ py_str env name @ '': We miss you! Come back for 15% off!'']\<rparr>)
         \<and> map_of (setitem results ''messages_sent'' (VInt (k + 1))) ''errors''
             = map_of results ''errors''"
  using assms
  by (simp add: we_miss_you_step_def generate_personalized_message_def send_message_def
      getitem_def py_get_def dict_get_def iadd_item_def py_iadd_def py_add_def py_str_def
      map_of_setitem m_defs)

theorem bridge_failure_still_sends_witness:
  "we_miss_you_step (example_env times_out) lan (campaign_results 1 0 0) start =
     (Inr (campaign_results 1 1 0),
      \<lparr>tick = 1,
        printed = [''Exception calling MCP tool: Command timed out after 30 seconds'',
                   ''Sending to Lan: We miss you! Come back for 15% off!'']\<rparr>)"
proof -
  have name: "map_of lan ''name'' = Some (VStr ''Lan'')"
    by (simp add: lan_def)
  have call: "call_mcp_tool (example_env times_out) ''google_vertex_ai_send_prompt''
               (personalized_message_params (example_env times_out) (VStr ''Lan'') ''we_miss_you'' lan) start
             = (Inr (VDict [(''error'', VStr ''Command timed out after 30 seconds'')]),
                \<lparr>tick = 1, printed = [''Exception calling MCP tool: Command timed out after 30 seconds'']\<rparr>)"
    by (simp add: example_call_timeout error_result_def start_def)
  have sent: "map_of (campaign_results 1 0 0) ''messages_sent'' = Some (VInt 0)"
    by (simp add: campaign_results_def)
  show ?thesis
    using bridge_failure_still_sends[OF name call _ sent]
    by (simp add: campaign_results_def py_str_def)
qed

section \<open>The recommendation campaign\<close>

lemma strip_result_nonempty: "list_all (\<lambda>r. r \<noteq> []) (map strip (filter (\<lambda>r. strip r \<noteq> []) xs))"
  by (simp add: list_all_iff)

lemma get_ai_recommendations_nonempty:
  assumes "get_ai_recommendations env customer w = (Inr recs, w1)"
  shows "list_all (\<lambda>r. r \<noteq> []) recs"
proof -
  obtain r w2 where call:
    "call_mcp_tool env ''google_vertex_ai_send_prompt'' (recommendation_params env customer) w
       = (Inr r, w2)"
    using call_mcp_tool_returns by blast
  show ?thesis
    using assms call strip_result_nonempty
    by (auto simp: get_ai_recommendations_def m_defs Let_def split: sum.splits prod.splits)
qed

text \<open>
  Claim C8, as amended. For a targeted customer for whom \<^verbatim>\<open>_get_ai_recommendations\<close>
  returns the list \<open>recs\<close> (each of its suggestions is non-empty): if \<open>recs\<close> is empty, the
  step prints nothing and leaves \<^verbatim>\<open>recommendations_sent\<close> as it was, whether or not the
  customer has a name; if \<open>recs\<close> is not empty and the customer has a \<^verbatim>\<open>name\<close> entry, the
  recommendation message is sent and \<^verbatim>\<open>recommendations_sent\<close> is incremented by one. The
  claim as stated, for every targeted customer, fails for a customer without a name.
\<close>

theorem recommendation_step_sends_iff:
  assumes "get_ai_recommendations env customer w = (Inr recs, w1)"
      and "map_of results ''recommendations_sent'' = Some (VInt k)"
      and "recs \<noteq> [] \<Longrightarrow> map_of customer ''name'' = Some name"
  shows "recommendation_step env customer results w =
           (if recs = [] then (Inr results, w1)
            else (Inr (setitem results ''recommendations_sent'' (VInt (k + 1))),
                  w1\<lparr>printed := printed w1 @
                     [''Sending to '' @ py_str env name @ '': Hi '' @ py_str env name
                        @ ''! Based on your taste, you might love: '' @ join '', '' recs]\<rparr>))
         \<and> list_all (\<lambda>r. r \<noteq> []) recs"
  using assms get_ai_recommendations_nonempty[OF assms(1)]
  by (simp add: recommendation_step_def generate_recommendation_message_def send_message_def
      getitem_def iadd_item_def py_iadd_def py_add_def py_str_def m_defs Let_def)

theorem recommendation_step_sends_iff_witness:
  "recommendation_step (example_env (exits 0 ''{text: Taro Milk Tea}'' [])) lan
        (recommendation_results 2 0) start
      = (Inr (recommendation_results 2 1),
         \<lparr>tick = 1,
           printed = [''Sending to Lan: Hi Lan! Based on your taste, you might love: Taro Milk Tea'']\<rparr>)
   \<and> recommendation_step quiet anonymous_customer (recommendation_results 2 1) start
      = (Inr (recommendation_results 2 1), \<lparr>tick = 1, printed = []\<rparr>)"
proof -
  have recs: "get_ai_recommendations (example_env (exits 0 ''{text: Taro Milk Tea}'' [])) lan start
              = (Inr [''Taro Milk Tea''], \<lparr>tick = 1, printed = []\<rparr>)"
    by (simp add: get_ai_recommendations_def example_call_exit0 example_loads_def py_get_def
        dict_get_def str_strip_def strip_def is_space_def start_def m_defs Let_def)
  have none: "get_ai_recommendations quiet anonymous_customer start
              = (Inr [], \<lparr>tick = 1, printed = []\<rparr>)"
    by (simp add: get_ai_recommendations_def quiet_def example_call_exit0 example_loads_def
        py_get_def dict_get_def str_strip_def strip_def start_def m_defs Let_def)
  have k0: "map_of (recommendation_results 2 0) ''recommendations_sent'' = Some (VInt 0)"
   and k1: "map_of (recommendation_results 2 1) ''recommendations_sent'' = Some (VInt 1)"
    by (simp_all add: recommendation_results_def)
  have name: "map_of lan ''name'' = Some (VStr ''Lan'')"
    by (simp add: lan_def)
  show ?thesis
    using recommendation_step_sends_iff[OF recs k0 name]
          recommendation_step_sends_iff[OF none k1, of "VStr ''Lan''"]
    by (simp add: recommendation_results_def py_str_def)
qed

text \<open>
  The counterexample to claim C8 as stated: for a customer without a \<^verbatim>\<open>name\<close> entry the
  recommendation call returns one non-empty suggestion, yet building the message raises
  KeyError; no message is sent, the counter is not incremented, and the campaign (which has
  no handler) ends with the exception.
\<close>

theorem recommendation_without_name_raises:
  "fst (get_ai_recommendations (example_env (exits 0 ''{text: Taro Milk Tea}'' []))
          anonymous_customer start) = Inr [''Taro Milk Tea'']
   \<and> recommendation_step (example_env (exits 0 ''{text: Taro Milk Tea}'' []))
        anonymous_customer (recommendation_results 1 0) start
      = (Inl (PyExn KeyError (quoted ''name'')), \<lparr>tick = 1, printed = []\<rparr>)
   \<and> run_recommendation_campaign (example_env (exits 0 ''{text: Taro Milk Tea}'' []))
        (ledger_with_recent [anonymous_customer]) start
      = (Inl (PyExn KeyError (quoted ''name'')), \<lparr>tick = 1, printed = []\<rparr>)"
  by (simp add: get_ai_recommendations_def recommendation_step_def run_recommendation_campaign_def
      generate_recommendation_message_def recommendation_results_def ledger_with_recent_def
      shipped_ledger_def example_call_exit0 example_loads_def py_get_def dict_get_def str_strip_def
      strip_def is_space_def anonymous_customer_def getitem_def start_def m_defs Let_def)

section \<open>The sales report\<close>




section \<open>Sentiment analysis\<close>

text \<open>
  Claim C3. When the sentiment tool answers with a numeric score \<open>s\<close>,
  \<^verbatim>\<open>analyze_customer_sentiment\<close> escalates exactly when \<open>s < -0.5\<close>: it then prints the
  manager alert and returns sentiment \<^verbatim>\<open>negative\<close>, the score, the action
  \<^verbatim>\<open>manager_alerted_and_apology_generated\<close> and the apology text. Otherwise it prints
  nothing and returns the action \<^verbatim>\<open>none\<close> with sentiment \<^verbatim>\<open>positive\<close> when \<open>s > 0\<close> and
  \<^verbatim>\<open>neutral\<close> when not. The witness runs the scores -0.6, -0.5, 0.3 and 0.
\<close>

theorem sentiment_thresholds:
  assumes "call_mcp_tool env ''google_vertex_ai_analyze_text_sentiment''
             (sentiment_params feedback_text) w = (Inr (VDict d), w')"
      and "map_of d ''score'' = Some v" and "num_of v = Some s"
  shows "analyze_customer_sentiment env feedback_text w =
           (if s < - 0.5 then
              (Inr [(''sentiment'', VStr ''negative''),
                    (''score'', v),
                    (''action_taken'', VStr ''manager_alerted_and_apology_generated''),
                    (''apology_email'', VStr (generate_apology_email feedback_text))],
               w'\<lparr>printed := printed w' @ [''ALERT: Negative feedback detected: '' @ feedback_text]\<rparr>)
            else
              (Inr [(''sentiment'', VStr (if s > 0 then ''positive'' else ''neutral'')),
                    (''score'', v),
                    (''action_taken'', VStr ''none'')], w'))"
  using assms
  by (simp add: analyze_customer_sentiment_def py_get_def dict_get_def py_lt_num_def py_gt_num_def
      alert_manager_def m_defs)

theorem sentiment_thresholds_witness:
  "fst (analyze_customer_sentiment (example_env (exits 0 ''{score: -0.6}'' [])) ''Too sweet'' start)
     = Inr [(''sentiment'', VStr ''negative''), (''score'', VFloat (- 0.6)),
            (''action_taken'', VStr ''manager_alerted_and_apology_generated''),
            (''apology_email'',
             VStr ''We're sorry for your experience. Please accept this free drink coupon.'')]
   \<and> printed (snd (analyze_customer_sentiment (example_env (exits 0 ''{score: -0.6}'' []))
        ''Too sweet'' start)) = [''ALERT: Negative feedback detected: Too sweet'']
   \<and> analyze_customer_sentiment (example_env (exits 0 ''{score: -0.5}'' [])) ''Too sweet'' start
     = (Inr [(''sentiment'', VStr ''neutral''), (''score'', VFloat (- 0.5)),
             (''action_taken'', VStr ''none'')], start\<lparr>tick := 1\<rparr>)
   \<and> analyze_customer_sentiment (example_env (exits 0 ''{score: 0.3}'' [])) ''Nice'' start
     = (Inr [(''sentiment'', VStr ''positive''), (''score'', VFloat 0.3),
             (''action_taken'', VStr ''none'')], start\<lparr>tick := 1\<rparr>)
   \<and> analyze_customer_sentiment (example_env (exits 0 ''{score: 0}'' [])) ''Fine'' start
     = (Inr [(''sentiment'', VStr ''neutral''), (''score'', VInt 0),
             (''action_taken'', VStr ''none'')], start\<lparr>tick := 1\<rparr>)"
proof -
  have a: "call_mcp_tool (example_env (exits 0 ''{score: -0.6}'' [])) ''google_vertex_ai_analyze_text_sentiment''
             (sentiment_params ''Too sweet'') start = (Inr (VDict [(''score'', VFloat (- 0.6))]), start\<lparr>tick := 1\<rparr>)"
    by (simp add: example_call_exit0 example_loads_def start_def)
  have b: "call_mcp_tool (example_env (exits 0 ''{score: -0.5}'' [])) ''google_vertex_ai_analyze_text_sentiment''
             (sentiment_params ''Too sweet'') start = (Inr (VDict [(''score'', VFloat (- 0.5))]), start\<lparr>tick := 1\<rparr>)"
    by (simp add: example_call_exit0 example_loads_def start_def)
  have c: "call_mcp_tool (example_env (exits 0 ''{score: 0.3}'' [])) ''google_vertex_ai_analyze_text_sentiment''
             (sentiment_params ''Nice'') start = (Inr (VDict [(''score'', VFloat 0.3)]), start\<lparr>tick := 1\<rparr>)"
    by (simp add: example_call_exit0 example_loads_def start_def)
  have d: "call_mcp_tool (example_env (exits 0 ''{score: 0}'' [])) ''google_vertex_ai_analyze_text_sentiment''
             (sentiment_params ''Fine'') start = (Inr (VDict [(''score'', VInt 0)]), start\<lparr>tick := 1\<rparr>)"
    by (simp add: example_call_exit0 example_loads_def start_def)
  show ?thesis
    using sentiment_thresholds[OF a, of "VFloat (- 0.6)" "- 0.6"]
          sentiment_thresholds[OF b, of "VFloat (- 0.5)" "- 0.5"]
          sentiment_thresholds[OF c, of "VFloat 0.3" "0.3"]
          sentiment_thresholds[OF d, of "VInt 0" "0"]
    by (simp add: generate_apology_email_def start_def)
qed

text \<open>
  Claim C10. When the sentiment tool's result is a dictionary without a \<^verbatim>\<open>score\<close> entry
  (the error-tagged result of a failed call is one), \<^verbatim>\<open>analyze_customer_sentiment\<close>
  compares 0 with both thresholds and returns sentiment \<^verbatim>\<open>neutral\<close>, score \<^verbatim>\<open>None\<close> and
  action \<^verbatim>\<open>none\<close>; the world is the one the bridge call left, so no alert is printed, and
  the result has no apology.
\<close>

theorem sentiment_without_score:
  assumes "call_mcp_tool env ''google_vertex_ai_analyze_text_sentiment''
             (sentiment_params feedback_text) w = (Inr (VDict d), w')"
      and "map_of d ''score'' = None"
  shows "analyze_customer_sentiment env feedback_text w =
           (Inr [(''sentiment'', VStr ''neutral''),
                 (''score'', VNone),
                 (''action_taken'', VStr ''none'')], w')"
  using assms
  by (simp add: analyze_customer_sentiment_def py_get_def dict_get_def py_lt_num_def py_gt_num_def
      alert_manager_def m_defs)

theorem sentiment_without_score_witness:
  "analyze_customer_sentiment (example_env (exits 2 [] ''quota exceeded'')) ''Too sweet'' start
     = (Inr [(''sentiment'', VStr ''neutral''), (''score'', VNone), (''action_taken'', VStr ''none'')],
        \<lparr>tick = 1, printed = [''MCP tool error: quota exceeded'']\<rparr>)"
proof -
  have a: "call_mcp_tool (example_env (exits 2 [] ''quota exceeded''))
             ''google_vertex_ai_analyze_text_sentiment'' (sentiment_params ''Too sweet'') start
           = (Inr (VDict [(''error'', VStr ''quota exceeded'')]),
              \<lparr>tick = 1, printed = [''MCP tool error: quota exceeded'']\<rparr>)"
    by (simp add: example_call_failed error_result_def start_def)
  show ?thesis
    using sentiment_without_score[OF a] by simp
qed

end
